theory Spec2Isabelle
  imports
    Main
    "HOL-Library.Word"
    "HOL-Library.Char_ord"
    "HOL-Library.List_Lexorder"
begin

section \<open>The user service of service-template\<close>

text \<open>
  A shallow embedding of \<^verbatim>\<open>internal/business/service/service.go\<close>. Every method of
  \<^verbatim>\<open>userService\<close> becomes a function that takes the database and returns its result
  together with the database after the call. An error return of the Go code is the
  \<open>Inl\<close> branch of a sum (or \<open>Some\<close> for a method that returns only an \<^verbatim>\<open>error\<close>).
  Tracing spans and the context argument carry no data the methods compute with and are
  left out; a cancelled context shows as a failing database call.
\<close>

subsection \<open>Errors\<close>

text \<open>
  The five sentinel errors of the package, \<^verbatim>\<open>sql.ErrNoRows\<close>, an error of the database
  driver, an error of bcrypt, and \<^verbatim>\<open>errors.Wrapf(err, format, args...)\<close>, which keeps the
  cause, the format string and its arguments.
\<close>

datatype error =
    ErrNotFound
  | ErrInvalidID
  | ErrDuplicatedEmail
  | ErrAuthenticationFailure
  | ErrForbidden
  | SqlErrNoRows
  | Driver string
  | Bcrypt string
  | Wrapf error string "string list"

definition Wrap :: "error \<Rightarrow> string \<Rightarrow> error" where
  "Wrap err message = Wrapf err message []"

subsection \<open>Time\<close>

text \<open>
  A \<^verbatim>\<open>time.Time\<close> as Go's \<^verbatim>\<open>time\<close> package reads it: \<open>sec\<close> is the value of its
  method \<^verbatim>\<open>sec()\<close>, the seconds since January 1 of year 1 as an \<^verbatim>\<open>int64\<close>, \<open>nsec\<close> the
  nanoseconds within that second, and \<open>location\<close> the name of its location. The
  monotonic clock reading is left out: none of the methods used here returns it. In a
  \<^verbatim>\<open>Time\<close> that Go makes, \<open>nsec\<close> is at least 0 and below one thousand million.
\<close>

record Time =
  sec :: "64 word"
  nsec :: int
  location :: string

definition wf_Time :: "Time \<Rightarrow> bool" where
  "wf_Time t = (0 \<le> nsec t \<and> nsec t < 1000000000)"

text \<open>\<^verbatim>\<open>UTC()\<close> keeps the instant and sets the location.\<close>

definition UTC :: "Time \<Rightarrow> Time" where
  "UTC t = t\<lparr>location := ''UTC''\<rparr>"

text \<open>
  \<^verbatim>\<open>Unix()\<close> is \<^verbatim>\<open>t.sec() + internalToUnix\<close>, an \<^verbatim>\<open>int64\<close> sum that wraps around.
\<close>

definition internalToUnix :: "64 word" where
  "internalToUnix = - 62135596800"

definition Unix :: "Time \<Rightarrow> 64 word" where
  "Unix t = sec t + internalToUnix"

text \<open>
  A \<^verbatim>\<open>time.Duration\<close> is a number of nanoseconds; Go's \<^verbatim>\<open>/\<close> and \<^verbatim>\<open>%\<close> on it round
  towards zero.
\<close>

definition Hour :: int where
  "Hour = 3600 * 1000000000"

definition quot :: "int \<Rightarrow> int \<Rightarrow> int" where
  "quot a b = (if (a < 0) = (b < 0) then \<bar>a\<bar> div \<bar>b\<bar> else - (\<bar>a\<bar> div \<bar>b\<bar>))"

definition rem :: "int \<Rightarrow> int \<Rightarrow> int" where
  "rem a b = a - b * quot a b"

subsection \<open>Data\<close>

text \<open>
  The fields of \<^verbatim>\<open>User\<close>, \<^verbatim>\<open>NewUserRequest\<close> and \<^verbatim>\<open>UpdateUserRequest\<close> are the ones
  \<^verbatim>\<open>service.go\<close> reads and writes. A byte slice is a \<open>string\<close>, a slice of role names
  a \<open>string list\<close>.
\<close>

record User =
  ID :: string
  Name :: string
  LastName :: string
  Email :: string
  Country :: string
  PasswordHash :: string
  Roles :: "string list"
  DateCreated :: Time
  DateUpdated :: Time

record NewUserRequest =
  nur_Name :: string
  nur_LastName :: string
  nur_Email :: string
  nur_Country :: string
  nur_Password :: string
  nur_Roles :: "string list"

record UpdateUserRequest =
  uur_Name :: string
  uur_LastName :: string
  uur_Email :: string
  uur_Country :: string

text \<open>
  \<^verbatim>\<open>auth.Claims\<close>: the fields of \<^verbatim>\<open>jwt.StandardClaims\<close> (\<open>JwtId\<close> is its field
  \<^verbatim>\<open>Id\<close>; the three times are \<^verbatim>\<open>int64\<close>) and the roles.
\<close>

record Claims =
  Audience :: string
  ExpiresAt :: "64 word"
  JwtId :: string
  IssuedAt :: "64 word"
  Issuer :: string
  NotBefore :: "64 word"
  Subject :: string
  ClaimRoles :: "string list"

text \<open>
  Modelled from the spec: the method \<^verbatim>\<open>auth.Claims.Authorized\<close> is not among the sources.
  The spec's guard allows a caller whose roles contain the wanted role.
\<close>

definition Authorized :: "Claims \<Rightarrow> string \<Rightarrow> bool" where
  "Authorized claims want = (want \<in> set (ClaimRoles claims))"

subsection \<open>Libraries\<close>

text \<open>
  What the service takes from outside its own file, as parameters:
  \<^item> \<open>uuid_Parse s\<close> holds iff \<^verbatim>\<open>uuid.Parse(s)\<close> returns no error;
  \<^item> \<open>uuid_New\<close> is the string of the identifier \<^verbatim>\<open>uuid.New()\<close> draws in this call;
  \<^item> \<open>bcrypt_Generate p\<close> is the result of \<^verbatim>\<open>bcrypt.GenerateFromPassword\<close> at the
    default cost with the salt drawn in this call;
  \<^item> \<open>bcrypt_Compare h p\<close> holds iff \<^verbatim>\<open>bcrypt.CompareHashAndPassword(h, p)\<close> returns no
    error;
  \<^item> \<open>RoleAdmin\<close> is the constant \<^verbatim>\<open>auth.RoleAdmin\<close>, whose declaration is not among
    the sources;
  \<^item> \<open>time_saturates\<close> holds iff the release of Go in use checks the sum of seconds in
    \<^verbatim>\<open>Time.Add\<close> for overflow.
\<close>

record libs =
  uuid_Parse :: "string \<Rightarrow> bool"
  uuid_New :: string
  bcrypt_Generate :: "string \<Rightarrow> error + string"
  bcrypt_Compare :: "string \<Rightarrow> string \<Rightarrow> bool"
  RoleAdmin :: string
  time_saturates :: bool

text \<open>
  \<^verbatim>\<open>addSec\<close> adds seconds to \<^verbatim>\<open>sec()\<close>. Releases of Go that check this sum set the
  result to the greatest \<^verbatim>\<open>int64\<close>, or to its negative, when the sum leaves the range;
  the others let it wrap around.
\<close>

definition addSec :: "libs \<Rightarrow> 64 word \<Rightarrow> 64 word \<Rightarrow> 64 word" where
  "addSec L s d =
     (if time_saturates L
      then (if (sint s < sint (s + d)) = (0 < sint d) then s + d
            else if 0 < sint d then 9223372036854775807
            else - 9223372036854775807)
      else s + d)"

text \<open>
  \<^verbatim>\<open>Add(d)\<close>: the whole seconds of \<open>d\<close> go to \<^verbatim>\<open>addSec\<close>, the rest to the
  nanoseconds, with a carry of one second either way.
\<close>

definition Add :: "libs \<Rightarrow> Time \<Rightarrow> int \<Rightarrow> Time" where
  "Add L t d =
     (let dsec = quot d 1000000000;
          n = nsec t + rem d 1000000000
      in if 1000000000 \<le> n
         then t\<lparr>sec := addSec L (sec t) (word_of_int (dsec + 1)), nsec := n - 1000000000\<rparr>
         else if n < 0
         then t\<lparr>sec := addSec L (sec t) (word_of_int (dsec - 1)), nsec := n + 1000000000\<rparr>
         else t\<lparr>sec := addSec L (sec t) (word_of_int dsec), nsec := n\<rparr>)"

subsection \<open>The database\<close>

text \<open>
  The seven statements the service sends, with their arguments. \<open>UpdateFields\<close> carries
  name, last name, email, country, update date and user id, in the order of the
  placeholders.
\<close>

datatype stmt =
    CountByEmail string
  | InsertUser User
  | UpdateFields string string string string Time string
  | DeleteByID string
  | SelectPage "64 word" "64 word"
  | SelectByID string
  | SelectByEmail string

text \<open>
  The database is the table \<^verbatim>\<open>users\<close> (its rows in insertion order), the statements it
  has received so far, and \<open>fault\<close>, which says for each statement whether the driver
  fails on it (a lost connection, a cancelled context, a violated constraint) and with
  which message. A statement that fails changes no row. Identifiers and emails are
  compared as strings, character by character.
\<close>

record DB =
  users :: "User list"
  fault :: "stmt \<Rightarrow> string option"
  trace :: "stmt list"

definition sent :: "DB \<Rightarrow> stmt \<Rightarrow> DB" where
  "sent db s = db\<lparr>trace := trace db @ [s]\<rparr>"

text \<open>\<^verbatim>\<open>SELECT COUNT(*) FROM users AS numUsers WHERE email=$1\<close>, scanned into an integer.\<close>

definition countByEmail :: "DB \<Rightarrow> string \<Rightarrow> (error + int) \<times> DB" where
  "countByEmail db email =
     (case fault db (CountByEmail email) of
        Some m \<Rightarrow> (Inl (Driver m), sent db (CountByEmail email))
      | None \<Rightarrow>
          (Inr (int (length (filter (\<lambda>u. Email u = email) (users db)))),
           sent db (CountByEmail email)))"

text \<open>\<^verbatim>\<open>INSERT INTO users (...) VALUES (...)\<close>.\<close>

definition insertUser :: "DB \<Rightarrow> User \<Rightarrow> error option \<times> DB" where
  "insertUser db u =
     (case fault db (InsertUser u) of
        Some m \<Rightarrow> (Some (Driver m), sent db (InsertUser u))
      | None \<Rightarrow> (None, sent (db\<lparr>users := users db @ [u]\<rparr>) (InsertUser u)))"

text \<open>\<^verbatim>\<open>UPDATE users SET name, last_name, email, country, date_updated WHERE user_id=$6\<close>.\<close>

definition updateRow ::
  "string \<Rightarrow> string \<Rightarrow> string \<Rightarrow> string \<Rightarrow> Time \<Rightarrow> string \<Rightarrow> User \<Rightarrow> User" where
  "updateRow name lastName email country dateUpdated userID u =
     (if ID u = userID
      then u\<lparr>Name := name, LastName := lastName, Email := email, Country := country,
             DateUpdated := dateUpdated\<rparr>
      else u)"

definition updateFields ::
  "DB \<Rightarrow> string \<Rightarrow> string \<Rightarrow> string \<Rightarrow> string \<Rightarrow> Time \<Rightarrow> string \<Rightarrow> error option \<times> DB" where
  "updateFields db name lastName email country dateUpdated userID =
     (case fault db (UpdateFields name lastName email country dateUpdated userID) of
        Some m \<Rightarrow>
          (Some (Driver m),
           sent db (UpdateFields name lastName email country dateUpdated userID))
      | None \<Rightarrow>
          (None,
           sent (db\<lparr>users :=
                      map (updateRow name lastName email country dateUpdated userID) (users db)\<rparr>)
             (UpdateFields name lastName email country dateUpdated userID)))"

text \<open>\<^verbatim>\<open>DELETE FROM users WHERE user_id = $1\<close>: no row to delete is no error.\<close>

definition deleteByID :: "DB \<Rightarrow> string \<Rightarrow> error option \<times> DB" where
  "deleteByID db userID =
     (case fault db (DeleteByID userID) of
        Some m \<Rightarrow> (Some (Driver m), sent db (DeleteByID userID))
      | None \<Rightarrow>
          (None,
           sent (db\<lparr>users := filter (\<lambda>u. ID u \<noteq> userID) (users db)\<rparr>) (DeleteByID userID)))"

text \<open>
  \<^verbatim>\<open>SELECT * FROM users ORDER BY user_id OFFSET $1 ROWS FETCH NEXT $2 ROWS ONLY\<close>.
  The identifiers are compared as strings, byte by byte. PostgreSQL rejects a negative
  offset and a negative row count.
\<close>

definition selectPage :: "DB \<Rightarrow> 64 word \<Rightarrow> 64 word \<Rightarrow> (error + User list) \<times> DB" where
  "selectPage db offset limit =
     (case fault db (SelectPage offset limit) of
        Some m \<Rightarrow> (Inl (Driver m), sent db (SelectPage offset limit))
      | None \<Rightarrow>
          (if sint offset < 0 then Inl (Driver ''OFFSET must not be negative'')
           else if sint limit < 0 then Inl (Driver ''LIMIT must not be negative'')
           else Inr (take (nat (sint limit)) (drop (nat (sint offset)) (sort_key ID (users db)))),
           sent db (SelectPage offset limit)))"

text \<open>
  \<^verbatim>\<open>GetContext\<close> with \<^verbatim>\<open>SELECT * FROM users WHERE user_id = $1\<close>: the first row of the
  answer, \<^verbatim>\<open>sql.ErrNoRows\<close> when there is none.
\<close>

definition selectByID :: "DB \<Rightarrow> string \<Rightarrow> (error + User) \<times> DB" where
  "selectByID db userID =
     (case fault db (SelectByID userID) of
        Some m \<Rightarrow> (Inl (Driver m), sent db (SelectByID userID))
      | None \<Rightarrow>
          (case find (\<lambda>u. ID u = userID) (users db) of
             None \<Rightarrow> Inl SqlErrNoRows
           | Some u \<Rightarrow> Inr u,
           sent db (SelectByID userID)))"

text \<open>\<^verbatim>\<open>GetContext\<close> with \<^verbatim>\<open>SELECT * FROM users WHERE email = $1\<close>.\<close>

definition selectByEmail :: "DB \<Rightarrow> string \<Rightarrow> (error + User) \<times> DB" where
  "selectByEmail db email =
     (case fault db (SelectByEmail email) of
        Some m \<Rightarrow> (Inl (Driver m), sent db (SelectByEmail email))
      | None \<Rightarrow>
          (case find (\<lambda>u. Email u = email) (users db) of
             None \<Rightarrow> Inl SqlErrNoRows
           | Some u \<Rightarrow> Inr u,
           sent db (SelectByEmail email)))"

subsection \<open>The service\<close>

definition Create :: "libs \<Rightarrow> DB \<Rightarrow> NewUserRequest \<Rightarrow> Time \<Rightarrow> (error + User) \<times> DB" where
  "Create L db nur now =
     (case countByEmail db (nur_Email nur) of
        (Inl err, db1) \<Rightarrow>
          (Inl (Wrapf err ''looking for users with the email %s'' [nur_Email nur]), db1)
      | (Inr numUsers, db1) \<Rightarrow>
          if numUsers \<noteq> 0 then (Inl ErrDuplicatedEmail, db1)
          else
            (case bcrypt_Generate L (nur_Password nur) of
               Inl err \<Rightarrow> (Inl (Wrap err ''generating password hash''), db1)
             | Inr hash \<Rightarrow>
                 (let u = \<lparr>ID = uuid_New L,
                           Name = nur_Name nur,
                           LastName = nur_LastName nur,
                           Email = nur_Email nur,
                           Country = nur_Country nur,
                           PasswordHash = hash,
                           Roles = nur_Roles nur,
                           DateCreated = UTC now,
                           DateUpdated = UTC now\<rparr>
                  in case insertUser db1 u of
                       (Some err, db2) \<Rightarrow> (Inl (Wrap err ''inserting user''), db2)
                     | (None, db2) \<Rightarrow> (Inr u, db2))))"

definition GetByID :: "libs \<Rightarrow> DB \<Rightarrow> Claims \<Rightarrow> string \<Rightarrow> (error + User) \<times> DB" where
  "GetByID L db claims userID =
     (if \<not> uuid_Parse L userID then (Inl ErrInvalidID, db)
      else if \<not> Authorized claims (RoleAdmin L) \<and> Subject claims \<noteq> userID
      then (Inl ErrForbidden, db)
      else
        (case selectByID db userID of
           (Inl err, db1) \<Rightarrow>
             if err = SqlErrNoRows then (Inl ErrNotFound, db1)
             else (Inl (Wrapf err ''selecting user %q'' [userID]), db1)
         | (Inr u, db1) \<Rightarrow> (Inr u, db1)))"

definition Update ::
  "libs \<Rightarrow> DB \<Rightarrow> Claims \<Rightarrow> string \<Rightarrow> UpdateUserRequest \<Rightarrow> Time \<Rightarrow> (error + User) \<times> DB" where
  "Update L db claims userID uur now =
     (case GetByID L db claims userID of
        (Inl err, db1) \<Rightarrow> (Inl err, db1)
      | (Inr u0, db1) \<Rightarrow>
          (let u = u0\<lparr>Name := uur_Name uur,
                      Country := uur_Country uur,
                      LastName := uur_LastName uur,
                      Email := uur_Email uur,
                      DateUpdated := UTC now\<rparr>
           in case updateFields db1 (Name u) (LastName u) (Email u) (Country u)
                     (DateUpdated u) (ID u) of
                (Some err, db2) \<Rightarrow> (Inl (Wrap err ''updating user''), db2)
              | (None, db2) \<Rightarrow> (Inr u, db2)))"

definition Delete :: "libs \<Rightarrow> DB \<Rightarrow> Claims \<Rightarrow> string \<Rightarrow> error option \<times> DB" where
  "Delete L db claims userID =
     (if \<not> uuid_Parse L userID then (Some ErrInvalidID, db)
      else if \<not> Authorized claims (RoleAdmin L) \<and> Subject claims \<noteq> userID
      then (Some ErrForbidden, db)
      else
        (case deleteByID db userID of
           (Some err, db1) \<Rightarrow> (Some (Wrapf err ''deleting user %s'' [userID]), db1)
         | (None, db1) \<Rightarrow> (None, db1)))"

text \<open>Go's \<^verbatim>\<open>int\<close> is 64 bits wide here: subtraction and multiplication wrap around.\<close>

definition GetAll :: "DB \<Rightarrow> 64 word \<Rightarrow> 64 word \<Rightarrow> (error + User list) \<times> DB" where
  "GetAll db pageNumber rowsPerPage =
     (let offset = (pageNumber - 1) * rowsPerPage
      in case selectPage db offset rowsPerPage of
           (Inl err, db1) \<Rightarrow> (Inl (Wrap err ''selecting users''), db1)
         | (Inr us, db1) \<Rightarrow> (Inr us, db1))"

definition getByEmail :: "DB \<Rightarrow> string \<Rightarrow> (error + User) \<times> DB" where
  "getByEmail db email =
     (case selectByEmail db email of
        (Inl err, db1) \<Rightarrow>
          if err = SqlErrNoRows then (Inl ErrNotFound, db1)
          else (Inl (Wrapf err ''selecting user %q'' [email]), db1)
      | (Inr u, db1) \<Rightarrow> (Inr u, db1))"

definition Authenticate ::
  "libs \<Rightarrow> DB \<Rightarrow> Time \<Rightarrow> string \<Rightarrow> string \<Rightarrow> (error + Claims) \<times> DB" where
  "Authenticate L db now email password =
     (case getByEmail db email of
        (Inl err, db1) \<Rightarrow>
          if err = ErrNotFound then (Inl ErrAuthenticationFailure, db1)
          else (Inl (Wrap err ''selecting single user''), db1)
      | (Inr u, db1) \<Rightarrow>
          if \<not> bcrypt_Compare L (PasswordHash u) password
          then (Inl ErrAuthenticationFailure, db1)
          else
            (Inr \<lparr>Audience = ''clients'',
                  ExpiresAt = Unix (Add L now Hour),
                  JwtId = [],
                  IssuedAt = Unix now,
                  Issuer = ''service template'',
                  NotBefore = 0,
                  Subject = ID u,
                  ClaimRoles = Roles u\<rparr>,
             db1))"

subsection \<open>An example installation\<close>

text \<open>
  Concrete libraries and a concrete database, for evaluating the service. The shape
  test is the canonical form \<^verbatim>\<open>xxxxxxxx-xxxx-xxxx-xxxx-xxxxxxxxxxxx\<close>, one of the forms
  \<^verbatim>\<open>uuid.Parse\<close> accepts. The two password functions are not bcrypt: they stand for
  it with a fixed salt, and keep only that the comparison accepts exactly the password
  a hash was made from.
\<close>

definition hexdigit :: "char \<Rightarrow> bool" where
  "hexdigit c = (c \<in> set ''0123456789abcdefABCDEF'')"

fun uuid_shape :: "nat \<Rightarrow> string \<Rightarrow> bool" where
  "uuid_shape i [] = (i = 36)"
| "uuid_shape i (c # cs) =
     ((if i \<in> {8, 13, 18, 23} then c = CHR ''-'' else hexdigit c)
      \<and> uuid_shape (Suc i) cs)"

definition canonical_uuid :: "string \<Rightarrow> bool" where
  "canonical_uuid s = uuid_shape 0 s"

definition toy_Generate :: "string \<Rightarrow> error + string" where
  "toy_Generate password =
     (if 72 < length password then Inl (Bcrypt ''password length exceeds 72 bytes'')
      else Inr (''$2a$10$'' @ rev password))"

definition toy_Compare :: "string \<Rightarrow> string \<Rightarrow> bool" where
  "toy_Compare hash password = (hash = ''$2a$10$'' @ rev password)"

definition demo_libs :: libs where
  "demo_libs =
     \<lparr>uuid_Parse = canonical_uuid,
      uuid_New = ''f47ac10b-58cc-4372-a567-0e02b2c3d479'',
      bcrypt_Generate = toy_Generate,
      bcrypt_Compare = toy_Compare,
      RoleAdmin = ''ADMIN'',
      time_saturates = True\<rparr>"

definition demo_now :: Time where
  "demo_now = \<lparr>sec = 63835596800, nsec = 123456789, location = ''Local''\<rparr>"

definition demo_then :: Time where
  "demo_then = \<lparr>sec = 63735596800, nsec = 0, location = ''UTC''\<rparr>"

text \<open>\<^verbatim>\<open>time.Unix(math.MaxInt64, 0)\<close>: the seconds since year 1 have wrapped around.\<close>

definition far_now :: Time where
  "far_now = \<lparr>sec = - 9223371974719179009, nsec = 0, location = ''Local''\<rparr>"

definition alice :: User where
  "alice =
     \<lparr>ID = ''0a6ff1d4-3c2b-4f0e-9d57-1b2c3d4e5f60'',
      Name = ''Alice'', LastName = ''Liddell'', Email = ''alice@example.com'',
      Country = ''UK'', PasswordHash = ''$2a$10$dnalrednow'', Roles = [''ADMIN''],
      DateCreated = demo_then, DateUpdated = demo_then\<rparr>"

definition bob :: User where
  "bob =
     \<lparr>ID = ''7c9e6679-7425-40de-944b-e07fc1f90ae7'',
      Name = ''Bob'', LastName = ''Builder'', Email = ''bob@example.com'',
      Country = ''AR'', PasswordHash = ''$2a$10$tixifewnac'', Roles = [''USER''],
      DateCreated = demo_then, DateUpdated = demo_then\<rparr>"

definition demo_db :: DB where
  "demo_db = \<lparr>users = [bob, alice], fault = (\<lambda>s. None), trace = []\<rparr>"

definition claims_of :: "User \<Rightarrow> Claims" where
  "claims_of u =
     \<lparr>Audience = ''clients'', ExpiresAt = 1700003600, JwtId = [], IssuedAt = 1700000000,
      Issuer = ''service template'', NotBefore = 0, Subject = ID u, ClaimRoles = Roles u\<rparr>"

definition carol_request :: NewUserRequest where
  "carol_request =
     \<lparr>nur_Name = ''Carol'', nur_LastName = ''Danvers'', nur_Email = ''carol@example.com'',
      nur_Country = ''US'', nur_Password = ''marvel'', nur_Roles = [''USER'']\<rparr>"

definition demo_update :: UpdateUserRequest where
  "demo_update =
     \<lparr>uur_Name = ''Robert'', uur_LastName = ''Builder'', uur_Email = ''alice@example.com'',
      uur_Country = ''AR''\<rparr>"

definition bob_again :: NewUserRequest where
  "bob_again =
     \<lparr>nur_Name = ''Roberto'', nur_LastName = ''Constructor'', nur_Email = ''bob@example.com'',
      nur_Country = ''ES'', nur_Password = ''podemos'', nur_Roles = [''USER'']\<rparr>"

definition carol :: User where
  "carol =
     \<lparr>ID = ''f47ac10b-58cc-4372-a567-0e02b2c3d479'',
      Name = ''Carol'', LastName = ''Danvers'', Email = ''carol@example.com'',
      Country = ''US'', PasswordHash = ''$2a$10$levram'', Roles = [''USER''],
      DateCreated = \<lparr>sec = 63835596800, nsec = 123456789, location = ''UTC''\<rparr>,
      DateUpdated = \<lparr>sec = 63835596800, nsec = 123456789, location = ''UTC''\<rparr>\<rparr>"

definition dave_request :: NewUserRequest where
  "dave_request =
     \<lparr>nur_Name = ''Dave'', nur_LastName = ''Bowman'', nur_Email = ''dave@example.com'',
      nur_Country = ''US'', nur_Password = ''podbaydoors'', nur_Roles = []\<rparr>"

definition dave :: User where
  "dave =
     \<lparr>ID = ''f47ac10b-58cc-4372-a567-0e02b2c3d479'',
      Name = ''Dave'', LastName = ''Bowman'', Email = ''dave@example.com'',
      Country = ''US'', PasswordHash = ''$2a$10$sroodyabdop'', Roles = [],
      DateCreated = \<lparr>sec = 63835596800, nsec = 123456789, location = ''UTC''\<rparr>,
      DateUpdated = \<lparr>sec = 63835596800, nsec = 123456789, location = ''UTC''\<rparr>\<rparr>"

definition robert :: User where
  "robert =
     \<lparr>ID = ''7c9e6679-7425-40de-944b-e07fc1f90ae7'',
      Name = ''Robert'', LastName = ''Builder'', Email = ''alice@example.com'',
      Country = ''AR'', PasswordHash = ''$2a$10$tixifewnac'', Roles = [''USER''],
      DateCreated = demo_then,
      DateUpdated = \<lparr>sec = 63835596800, nsec = 123456789, location = ''UTC''\<rparr>\<rparr>"

section \<open>Properties\<close>

subsection \<open>Arithmetic of the clock and of Go's integers\<close>

lemma sint_plus_hour:
  assumes "sint (w :: 64 word) + 3600 < 2 ^ 63"
  shows "sint (w + 3600) = sint w + 3600"
proof -
  have lo: "- (2 ^ 63) \<le> sint w"
    using sint_ge [of w] by simp
  have "sint (w + 3600) = signed_take_bit 63 (sint w + 3600)"
    by (simp add: sint_word_ariths)
  also have "\<dots> = sint w + 3600"
    using assms lo by (simp add: signed_take_bit_int_eq_self)
  finally show ?thesis .
qed

lemma Add_Hour:
  assumes "wf_Time t"
  shows "Add L t Hour = t\<lparr>sec := addSec L (sec t) 3600\<rparr>"
  using assms by (simp add: Add_def Hour_def quot_def rem_def wf_Time_def Let_def)

lemma addSec_in_range:
  assumes "sint s + 3600 < 2 ^ 63"
  shows "addSec L s 3600 = s + 3600"
  by (simp add: addSec_def sint_plus_hour [OF assms])

lemma Unix_Add_Hour:
  assumes "wf_Time t" and "sint (sec t) + 3600 < 2 ^ 63"
  shows "Unix (Add L t Hour) = Unix t + 3600"
  by (simp add: Add_Hour [OF assms(1)] addSec_in_range [OF assms(2)] Unix_def)

lemma sint_Unix:
  assumes "- (2 ^ 63) \<le> sint (sec t) - 62135596800"
  shows "sint (Unix t) = sint (sec t) - 62135596800"
proof -
  have hi: "sint (sec t) < 2 ^ 63"
    using sint_lt [of "sec t"] by simp
  have "sint (Unix t) = signed_take_bit 63 (sint (sec t) - 62135596800)"
    by (simp add: Unix_def internalToUnix_def sint_word_ariths)
  also have "\<dots> = sint (sec t) - 62135596800"
    using assms hi by (simp add: signed_take_bit_int_eq_self)
  finally show ?thesis .
qed

lemma sint_page_offset:
  assumes "- (2 ^ 63) < sint (p :: 64 word)"
      and "- (2 ^ 63) \<le> (sint p - 1) * sint r" and "(sint p - 1) * sint r < 2 ^ 63"
  shows "sint ((p - 1) * r) = (sint p - 1) * sint (r :: 64 word)"
proof -
  have "sint p < 2 ^ 63"
    using sint_lt [of p] by simp
  with assms(1) have p1: "sint (p - 1) = sint p - 1"
    by (simp add: sint_word_ariths signed_take_bit_int_eq_self)
  have "sint ((p - 1) * r) = signed_take_bit 63 (sint (p - 1) * sint r)"
    by (simp add: sint_word_ariths)
  also have "\<dots> = (sint p - 1) * sint r"
    using assms(2,3) by (simp add: p1 signed_take_bit_int_eq_self)
  finally show ?thesis .
qed

subsection \<open>The example identifiers\<close>

lemma canonical_alice: "canonical_uuid (ID alice)"
  by (simp add: canonical_uuid_def alice_def hexdigit_def)

lemma canonical_bob: "canonical_uuid (ID bob)"
  by (simp add: canonical_uuid_def bob_def hexdigit_def)

lemma not_canonical: "\<not> canonical_uuid ''42''"
  by (simp add: canonical_uuid_def hexdigit_def)

lemma demo_Parse: "uuid_Parse demo_libs = canonical_uuid"
  by (simp add: demo_libs_def)

subsection \<open>The guard of GetByID, Delete and Update\<close>

lemma GetByID_forbidden:
  "uuid_Parse L userID \<Longrightarrow> RoleAdmin L \<notin> set (ClaimRoles claims) \<Longrightarrow> Subject claims \<noteq> userID
   \<Longrightarrow> GetByID L db claims userID = (Inl ErrForbidden, db)"
  by (simp add: GetByID_def Authorized_def)

lemma GetByID_allowed:
  assumes "uuid_Parse L userID"
      and "RoleAdmin L \<in> set (ClaimRoles claims) \<or> Subject claims = userID"
  shows "GetByID L db claims userID =
     (case fault db (SelectByID userID) of
        Some m \<Rightarrow> Inl (Wrapf (Driver m) ''selecting user %q'' [userID])
      | None \<Rightarrow>
          (case find (\<lambda>u. ID u = userID) (users db) of
             None \<Rightarrow> Inl ErrNotFound
           | Some u \<Rightarrow> Inr u),
      sent db (SelectByID userID))"
  using assms
  by (auto simp: GetByID_def Authorized_def selectByID_def split: option.splits)

lemma GetByID_allowed_not_forbidden:
  assumes "uuid_Parse L userID"
      and "RoleAdmin L \<in> set (ClaimRoles claims) \<or> Subject claims = userID"
  shows "fst (GetByID L db claims userID) \<noteq> Inl ErrForbidden"
  by (simp add: GetByID_allowed [OF assms] split: option.splits)

lemma Delete_allowed:
  assumes "uuid_Parse L userID"
      and "RoleAdmin L \<in> set (ClaimRoles claims) \<or> Subject claims = userID"
  shows "Delete L db claims userID =
     (case fault db (DeleteByID userID) of
        Some m \<Rightarrow>
          (Some (Wrapf (Driver m) ''deleting user %s'' [userID]), sent db (DeleteByID userID))
      | None \<Rightarrow>
          (None,
           sent (db\<lparr>users := filter (\<lambda>u. ID u \<noteq> userID) (users db)\<rparr>) (DeleteByID userID)))"
  using assms
  by (auto simp: Delete_def Authorized_def deleteByID_def split: option.splits)

lemma Delete_forbidden:
  "uuid_Parse L userID \<Longrightarrow> RoleAdmin L \<notin> set (ClaimRoles claims) \<Longrightarrow> Subject claims \<noteq> userID
   \<Longrightarrow> Delete L db claims userID = (Some ErrForbidden, db)"
  by (simp add: Delete_def Authorized_def)

lemma Update_error_iff:
  "fst (Update L db claims userID uur now) = Inl ErrForbidden
   \<longleftrightarrow> fst (GetByID L db claims userID) = Inl ErrForbidden"
  by (auto simp: Update_def Wrap_def Let_def updateFields_def split: prod.splits sum.splits option.splits)

text \<open>
  C1. For a user id that parses, \<open>GetByID\<close>, \<open>Delete\<close> and \<open>Update\<close> return
  \<open>ErrForbidden\<close> exactly when the caller's roles do not contain the admin role and the
  caller's subject differs from the user id. So an admin is never refused, whatever the
  subject, and neither is a caller acting on their own id.
\<close>

theorem guard_forbidden_iff:
  assumes "uuid_Parse L userID"
  shows "(fst (GetByID L db claims userID) = Inl ErrForbidden
            \<longleftrightarrow> RoleAdmin L \<notin> set (ClaimRoles claims) \<and> Subject claims \<noteq> userID)
       \<and> (fst (Delete L db claims userID) = Some ErrForbidden
            \<longleftrightarrow> RoleAdmin L \<notin> set (ClaimRoles claims) \<and> Subject claims \<noteq> userID)
       \<and> (fst (Update L db claims userID uur now) = Inl ErrForbidden
            \<longleftrightarrow> RoleAdmin L \<notin> set (ClaimRoles claims) \<and> Subject claims \<noteq> userID)"
proof (cases "RoleAdmin L \<notin> set (ClaimRoles claims) \<and> Subject claims \<noteq> userID")
  case True
  then show ?thesis
    using assms
    by (simp add: Update_error_iff GetByID_forbidden Delete_forbidden)
next
  case False
  then have ok: "RoleAdmin L \<in> set (ClaimRoles claims) \<or> Subject claims = userID"
    by blast
  have "fst (GetByID L db claims userID) \<noteq> Inl ErrForbidden"
    by (rule GetByID_allowed_not_forbidden [OF assms ok])
  moreover have "fst (Delete L db claims userID) \<noteq> Some ErrForbidden"
    by (simp add: Delete_allowed [OF assms ok] split: option.splits)
  ultimately show ?thesis
    using False by (simp add: Update_error_iff)
qed

theorem guard_forbidden_iff_witness:
  "uuid_Parse demo_libs (ID alice) \<and> uuid_Parse demo_libs (ID bob)
   \<and> fst (GetByID demo_libs demo_db (claims_of bob) (ID alice)) = Inl ErrForbidden
   \<and> fst (Delete demo_libs demo_db (claims_of bob) (ID alice)) = Some ErrForbidden
   \<and> fst (Update demo_libs demo_db (claims_of bob) (ID alice) demo_update demo_now)
       = Inl ErrForbidden
   \<and> fst (GetByID demo_libs demo_db (claims_of alice) (ID bob)) \<noteq> Inl ErrForbidden
   \<and> fst (Delete demo_libs demo_db (claims_of alice) (ID bob)) \<noteq> Some ErrForbidden
   \<and> fst (Update demo_libs demo_db (claims_of alice) (ID bob) demo_update demo_now)
       \<noteq> Inl ErrForbidden
   \<and> fst (GetByID demo_libs demo_db (claims_of bob) (ID bob)) \<noteq> Inl ErrForbidden
   \<and> fst (Delete demo_libs demo_db (claims_of bob) (ID bob)) \<noteq> Some ErrForbidden
   \<and> fst (Update demo_libs demo_db (claims_of bob) (ID bob) demo_update demo_now)
       \<noteq> Inl ErrForbidden"
proof -
  have a: "uuid_Parse demo_libs (ID alice)"
    by (simp add: demo_Parse canonical_alice)
  have b: "uuid_Parse demo_libs (ID bob)"
    by (simp add: demo_Parse canonical_bob)
  have c: "RoleAdmin demo_libs \<notin> set (ClaimRoles (claims_of bob))"
          "RoleAdmin demo_libs \<in> set (ClaimRoles (claims_of alice))"
          "Subject (claims_of bob) \<noteq> ID alice" "Subject (claims_of bob) = ID bob"
    by (simp_all add: demo_libs_def claims_of_def bob_def alice_def)
  show ?thesis
    using a b c
      guard_forbidden_iff [OF a, of demo_db "claims_of bob" demo_update demo_now]
      guard_forbidden_iff [OF b, of demo_db "claims_of alice" demo_update demo_now]
      guard_forbidden_iff [OF b, of demo_db "claims_of bob" demo_update demo_now]
    by simp
qed

text \<open>
  C6. For a user id that does not parse, \<open>GetByID\<close> and \<open>Delete\<close> return
  \<open>ErrInvalidID\<close> whatever the caller's claims are, and the database they return is the
  one they were given: no statement was sent and no row was touched.
\<close>

theorem invalid_id_before_store:
  assumes "\<not> uuid_Parse L userID"
  shows "GetByID L db claims userID = (Inl ErrInvalidID, db)
       \<and> Delete L db claims userID = (Some ErrInvalidID, db)"
  using assms by (simp add: GetByID_def Delete_def)

theorem invalid_id_before_store_witness:
  "\<not> uuid_Parse demo_libs ''42''
   \<and> RoleAdmin demo_libs \<notin> set (ClaimRoles (claims_of bob))
   \<and> Subject (claims_of bob) \<noteq> ''42''
   \<and> GetByID demo_libs demo_db (claims_of bob) ''42'' = (Inl ErrInvalidID, demo_db)
   \<and> Delete demo_libs demo_db (claims_of bob) ''42'' = (Some ErrInvalidID, demo_db)
   \<and> GetByID demo_libs demo_db (claims_of alice) ''42'' = (Inl ErrInvalidID, demo_db)
   \<and> Delete demo_libs demo_db (claims_of alice) ''42'' = (Some ErrInvalidID, demo_db)"
proof -
  have a: "\<not> uuid_Parse demo_libs ''42''"
    by (simp add: demo_Parse not_canonical)
  have b: "RoleAdmin demo_libs \<notin> set (ClaimRoles (claims_of bob))"
          "Subject (claims_of bob) \<noteq> ''42''"
    by (simp_all add: demo_libs_def claims_of_def bob_def)
  show ?thesis
    using a b
      invalid_id_before_store [OF a, of demo_db "claims_of bob"]
      invalid_id_before_store [OF a, of demo_db "claims_of alice"]
    by simp
qed

subsection \<open>Authenticate\<close>

lemma getByEmail_eq:
  "getByEmail db email =
     (case fault db (SelectByEmail email) of
        Some m \<Rightarrow> Inl (Wrapf (Driver m) ''selecting user %q'' [email])
      | None \<Rightarrow>
          (case find (\<lambda>u. Email u = email) (users db) of
             None \<Rightarrow> Inl ErrNotFound
           | Some u \<Rightarrow> Inr u),
      sent db (SelectByEmail email))"
  by (simp add: getByEmail_def selectByEmail_def split: option.splits)

lemma find_None_email:
  "find (\<lambda>u. Email u = email) us = None \<longleftrightarrow> email \<notin> Email ` set us"
  by (auto simp: find_None_iff)

text \<open>
  C2. \<open>Authenticate\<close> never returns \<open>ErrNotFound\<close>. When the driver does not fail on
  the lookup by email, an email that no user has and an email whose user's stored hash
  rejects the password both give exactly \<open>ErrAuthenticationFailure\<close>, after the same
  single statement: the two cases cannot be told apart.
\<close>

theorem authenticate_failure:
  "fst (Authenticate L db now email password) \<noteq> Inl ErrNotFound
   \<and> (fault db (SelectByEmail email) = None \<longrightarrow>
        email \<notin> Email ` set (users db)
        \<or> (\<exists>u. find (\<lambda>u. Email u = email) (users db) = Some u
               \<and> \<not> bcrypt_Compare L (PasswordHash u) password) \<longrightarrow>
        Authenticate L db now email password
          = (Inl ErrAuthenticationFailure, sent db (SelectByEmail email)))"
proof -
  have "fst (Authenticate L db now email password) \<noteq> Inl ErrNotFound"
    by (simp add: Authenticate_def getByEmail_eq Wrap_def split: option.splits)
  moreover have "Authenticate L db now email password
          = (Inl ErrAuthenticationFailure, sent db (SelectByEmail email))"
    if "fault db (SelectByEmail email) = None" and "email \<notin> Email ` set (users db)"
    using that by (simp add: Authenticate_def getByEmail_eq find_None_email [symmetric])
  moreover have "Authenticate L db now email password
          = (Inl ErrAuthenticationFailure, sent db (SelectByEmail email))"
    if "fault db (SelectByEmail email) = None"
      and "find (\<lambda>u. Email u = email) (users db) = Some u"
      and "\<not> bcrypt_Compare L (PasswordHash u) password" for u
    using that by (simp add: Authenticate_def getByEmail_eq)
  ultimately show ?thesis
    by blast
qed

theorem authenticate_failure_witness:
  "fault demo_db (SelectByEmail ''nobody@example.com'') = None
   \<and> ''nobody@example.com'' \<notin> Email ` set (users demo_db)
   \<and> fst (Authenticate demo_libs demo_db demo_now ''nobody@example.com'' ''canwefixit'')
       = Inl ErrAuthenticationFailure
   \<and> fault demo_db (SelectByEmail ''bob@example.com'') = None
   \<and> find (\<lambda>u. Email u = ''bob@example.com'') (users demo_db) = Some bob
   \<and> \<not> bcrypt_Compare demo_libs (PasswordHash bob) ''yeswecan''
   \<and> fst (Authenticate demo_libs demo_db demo_now ''bob@example.com'' ''yeswecan'')
       = Inl ErrAuthenticationFailure"
proof -
  have a: "fault demo_db (SelectByEmail e) = None" for e
    by (simp add: demo_db_def)
  have b: "''nobody@example.com'' \<notin> Email ` set (users demo_db)"
    by (simp add: demo_db_def bob_def alice_def)
  have c: "find (\<lambda>u. Email u = ''bob@example.com'') (users demo_db) = Some bob"
    by (simp add: demo_db_def bob_def)
  have d: "\<not> bcrypt_Compare demo_libs (PasswordHash bob) ''yeswecan''"
    by (simp add: demo_libs_def toy_Compare_def bob_def)
  show ?thesis
    using a b c d
      authenticate_failure [of demo_libs demo_db demo_now "''nobody@example.com''" "''canwefixit''"]
      authenticate_failure [of demo_libs demo_db demo_now "''bob@example.com''" "''yeswecan''"]
    by auto
qed

subsection \<open>Create\<close>

lemma Create_duplicate:
  assumes "\<exists>u \<in> set (users db). Email u = nur_Email nur"
  shows "Create L db nur now =
     (case fault db (CountByEmail (nur_Email nur)) of
        Some m \<Rightarrow> Inl (Wrapf (Driver m) ''looking for users with the email %s'' [nur_Email nur])
      | None \<Rightarrow> Inl ErrDuplicatedEmail,
      sent db (CountByEmail (nur_Email nur)))"
  using assms
  by (auto simp: Create_def countByEmail_def filter_empty_conv split: option.splits)

lemma Create_success:
  assumes "fst (Create L db nur now) = Inr u"
  shows "\<exists>hash. bcrypt_Generate L (nur_Password nur) = Inr hash
           \<and> u = \<lparr>ID = uuid_New L, Name = nur_Name nur, LastName = nur_LastName nur,
                  Email = nur_Email nur, Country = nur_Country nur, PasswordHash = hash,
                  Roles = nur_Roles nur, DateCreated = UTC now, DateUpdated = UTC now\<rparr>
           \<and> snd (Create L db nur now)
               = sent ((sent db (CountByEmail (nur_Email nur)))\<lparr>users := users db @ [u]\<rparr>)
                   (InsertUser u)"
  using assms
  by (auto simp: Create_def countByEmail_def insertUser_def sent_def Let_def
           split: option.splits sum.splits if_splits)

text \<open>
  C4. When the request's email is, character for character, the email of a user in the
  table, \<open>Create\<close> sends the counting statement and nothing else: no row is inserted or
  changed. When that statement does not fail at the driver, the result is
  \<open>ErrDuplicatedEmail\<close>.
\<close>

theorem create_duplicated_email:
  assumes "\<exists>u \<in> set (users db). Email u = nur_Email nur"
  shows "users (snd (Create L db nur now)) = users db
       \<and> trace (snd (Create L db nur now)) = trace db @ [CountByEmail (nur_Email nur)]
       \<and> snd (Create L db nur now) = sent db (CountByEmail (nur_Email nur))
       \<and> (fault db (CountByEmail (nur_Email nur)) = None
            \<longrightarrow> fst (Create L db nur now) = Inl ErrDuplicatedEmail)"
  by (simp add: Create_duplicate [OF assms] sent_def)

theorem create_duplicated_email_witness:
  "(\<exists>u \<in> set (users demo_db). Email u = nur_Email bob_again)
   \<and> fault demo_db (CountByEmail (nur_Email bob_again)) = None
   \<and> Create demo_libs demo_db bob_again demo_now
       = (Inl ErrDuplicatedEmail, demo_db\<lparr>trace := [CountByEmail ''bob@example.com'']\<rparr>)"
proof -
  have a: "\<exists>u \<in> set (users demo_db). Email u = nur_Email bob_again"
    by (simp add: demo_db_def bob_def bob_again_def)
  have b: "fault demo_db (CountByEmail (nur_Email bob_again)) = None"
    by (simp add: demo_db_def)
  have c: "sent demo_db (CountByEmail (nur_Email bob_again))
             = demo_db\<lparr>trace := [CountByEmail ''bob@example.com'']\<rparr>"
    by (simp add: sent_def demo_db_def bob_again_def)
  show ?thesis
    using a b create_duplicated_email [OF a, of demo_libs demo_now]
    by (simp add: c prod_eq_iff)
qed

text \<open>
  C5, as amended. The \<open>User\<close> that \<open>Create\<close> returns is the row it inserted, and its
  \<open>PasswordHash\<close> is the hash made from the request's password: the service does not
  clear it before returning.
\<close>

theorem create_returns_hash:
  assumes "fst (Create L db nur now) = Inr u"
  shows "bcrypt_Generate L (nur_Password nur) = Inr (PasswordHash u)
       \<and> users (snd (Create L db nur now)) = users db @ [u]"
  using Create_success [OF assms] by (auto simp: sent_def)

lemma Create_carol:
  "Create demo_libs demo_db carol_request demo_now
     = (Inr carol,
        \<lparr>users = [bob, alice, carol], fault = (\<lambda>s. None),
         trace = [CountByEmail ''carol@example.com'', InsertUser carol]\<rparr>)"
  by (simp add: Create_def countByEmail_def insertUser_def sent_def demo_db_def demo_libs_def
        carol_request_def toy_Generate_def bob_def alice_def carol_def UTC_def demo_now_def
        Let_def)

theorem create_returns_hash_witness:
  "fst (Create demo_libs demo_db carol_request demo_now) = Inr carol
   \<and> bcrypt_Generate demo_libs (nur_Password carol_request) = Inr (PasswordHash carol)
   \<and> users (snd (Create demo_libs demo_db carol_request demo_now)) = users demo_db @ [carol]"
proof -
  have a: "fst (Create demo_libs demo_db carol_request demo_now) = Inr carol"
    by (simp add: Create_carol)
  show ?thesis
    using a create_returns_hash [OF a] by simp
qed

text \<open>
  C5 as stated fails: the \<open>User\<close> returned for Carol's request carries the hash that was
  generated from her password.
\<close>

theorem create_hides_hash_counterexample:
  "fst (Create demo_libs demo_db carol_request demo_now) = Inr carol
   \<and> bcrypt_Generate demo_libs (nur_Password carol_request) = Inr ''$2a$10$levram''
   \<and> PasswordHash carol = ''$2a$10$levram''"
proof -
  have "bcrypt_Generate demo_libs (nur_Password carol_request) = Inr ''$2a$10$levram''"
    by (simp add: demo_libs_def toy_Generate_def carol_request_def)
  moreover have "PasswordHash carol = ''$2a$10$levram''"
    by (simp add: carol_def)
  ultimately show ?thesis
    by (simp add: Create_carol)
qed

text \<open>
  C9, as amended. \<open>Create\<close> copies the request's roles into the \<open>User\<close> it inserts and
  returns, without looking at them: the new user's roles are non-empty exactly when the
  request's are.
\<close>

theorem create_copies_roles:
  assumes "fst (Create L db nur now) = Inr u"
  shows "Roles u = nur_Roles nur \<and> u \<in> set (users (snd (Create L db nur now)))
       \<and> (Roles u \<noteq> [] \<longleftrightarrow> nur_Roles nur \<noteq> [])"
  using Create_success [OF assms] by (auto simp: sent_def)

lemma Create_dave:
  "Create demo_libs demo_db dave_request demo_now
     = (Inr dave,
        \<lparr>users = [bob, alice, dave], fault = (\<lambda>s. None),
         trace = [CountByEmail ''dave@example.com'', InsertUser dave]\<rparr>)"
  by (simp add: Create_def countByEmail_def insertUser_def sent_def demo_db_def demo_libs_def
        dave_request_def toy_Generate_def bob_def alice_def dave_def UTC_def demo_now_def
        Let_def)

theorem create_copies_roles_witness:
  "fst (Create demo_libs demo_db dave_request demo_now) = Inr dave
   \<and> Roles dave = nur_Roles dave_request
   \<and> dave \<in> set (users (snd (Create demo_libs demo_db dave_request demo_now)))"
proof -
  have a: "fst (Create demo_libs demo_db dave_request demo_now) = Inr dave"
    by (simp add: Create_dave)
  show ?thesis
    using a create_copies_roles [OF a] by simp
qed

text \<open>
  C9 as stated fails: a request without roles is accepted, and the table then holds a
  user whose roles are empty.
\<close>

theorem create_nonempty_roles_counterexample:
  "fst (Create demo_libs demo_db dave_request demo_now) = Inr dave
   \<and> users (snd (Create demo_libs demo_db dave_request demo_now)) = [bob, alice, dave]
   \<and> Roles dave = []"
proof -
  have "Roles dave = []"
    by (simp add: dave_def)
  then show ?thesis
    by (simp add: Create_dave)
qed

subsection \<open>Update\<close>

lemma Update_success:
  assumes "uuid_Parse L userID"
      and "RoleAdmin L \<in> set (ClaimRoles claims) \<or> Subject claims = userID"
      and "fault db (SelectByID userID) = None"
      and "find (\<lambda>u. ID u = userID) (users db) = Some u0"
      and "fault db (UpdateFields (uur_Name uur) (uur_LastName uur) (uur_Email uur)
             (uur_Country uur) (UTC now) (ID u0)) = None"
  shows "Update L db claims userID uur now =
     (Inr (u0\<lparr>Name := uur_Name uur, LastName := uur_LastName uur, Email := uur_Email uur,
              Country := uur_Country uur, DateUpdated := UTC now\<rparr>),
      db\<lparr>users := map (updateRow (uur_Name uur) (uur_LastName uur) (uur_Email uur)
                       (uur_Country uur) (UTC now) (ID u0)) (users db),
         trace := trace db @ [SelectByID userID,
                    UpdateFields (uur_Name uur) (uur_LastName uur) (uur_Email uur)
                      (uur_Country uur) (UTC now) (ID u0)]\<rparr>)"
proof -
  from assms(4) have id: "ID u0 = userID"
    by (auto simp: find_Some_iff)
  have g: "GetByID L db claims userID = (Inr u0, sent db (SelectByID userID))"
    using assms(3,4) by (simp add: GetByID_allowed [OF assms(1,2)])
  show ?thesis
    using assms(5) by (simp add: Update_def g id updateFields_def sent_def)
qed

lemma Update_not_duplicated:
  "fst (Update L db claims userID uur now) \<noteq> Inl ErrDuplicatedEmail"
  by (auto simp: Update_def GetByID_def selectByID_def updateFields_def Wrap_def Let_def
           split: prod.splits sum.splits option.splits if_splits)

text \<open>
  C7. \<open>Update\<close> never returns \<open>ErrDuplicatedEmail\<close>. For a user id that parses, an
  allowed caller, and a database that answers both statements, it reads the row by id,
  returns it with name, last name, email and country taken from the request and the
  update date set to \<open>now\<close> in UTC, and writes those five columns to the rows with
  the id of the row it read. Only the lookup by id and the update are sent: no statement
  counts emails.
\<close>

theorem update_overwrites:
  "fst (Update L db claims userID uur now) \<noteq> Inl ErrDuplicatedEmail
   \<and> (uuid_Parse L userID \<longrightarrow>
        RoleAdmin L \<in> set (ClaimRoles claims) \<or> Subject claims = userID \<longrightarrow>
        fault db (SelectByID userID) = None \<longrightarrow>
        find (\<lambda>u. ID u = userID) (users db) = Some u0 \<longrightarrow>
        fault db (UpdateFields (uur_Name uur) (uur_LastName uur) (uur_Email uur)
          (uur_Country uur) (UTC now) (ID u0)) = None \<longrightarrow>
        Update L db claims userID uur now =
          (Inr (u0\<lparr>Name := uur_Name uur, LastName := uur_LastName uur,
                   Email := uur_Email uur, Country := uur_Country uur,
                   DateUpdated := UTC now\<rparr>),
           db\<lparr>users := map (updateRow (uur_Name uur) (uur_LastName uur) (uur_Email uur)
                            (uur_Country uur) (UTC now) (ID u0)) (users db),
              trace := trace db @ [SelectByID userID,
                         UpdateFields (uur_Name uur) (uur_LastName uur) (uur_Email uur)
                           (uur_Country uur) (UTC now) (ID u0)]\<rparr>))"
  using Update_success [of L userID claims db u0 uur now]
    Update_not_duplicated [of L db claims userID uur now]
  by blast

theorem update_overwrites_witness:
  "uuid_Parse demo_libs (ID bob)
   \<and> Subject (claims_of bob) = ID bob
   \<and> find (\<lambda>u. ID u = ID bob) (users demo_db) = Some bob
   \<and> Email alice = uur_Email demo_update
   \<and> Update demo_libs demo_db (claims_of bob) (ID bob) demo_update demo_now =
       (Inr robert,
        demo_db\<lparr>users := [robert, alice],
           trace := [SelectByID (ID bob),
                     UpdateFields ''Robert'' ''Builder'' ''alice@example.com'' ''AR''
                       \<lparr>sec = 63835596800, nsec = 123456789, location = ''UTC''\<rparr> (ID bob)]\<rparr>)"
proof -
  have a: "uuid_Parse demo_libs (ID bob)"
    by (simp add: demo_Parse canonical_bob)
  have b: "RoleAdmin demo_libs \<in> set (ClaimRoles (claims_of bob))
           \<or> Subject (claims_of bob) = ID bob"
    by (simp add: claims_of_def)
  have c: "fault demo_db s = None" for s
    by (simp add: demo_db_def)
  have d: "find (\<lambda>u. ID u = ID bob) (users demo_db) = Some bob"
    by (simp add: demo_db_def)
  have e: "bob\<lparr>Name := ''Robert'', LastName := ''Builder'', Email := ''alice@example.com'',
               Country := ''AR'',
               DateUpdated := \<lparr>sec = 63835596800, nsec = 123456789, location = ''UTC''\<rparr>\<rparr>
             = robert"
    by (simp add: bob_def robert_def)
  have f: "map (updateRow ''Robert'' ''Builder'' ''alice@example.com'' ''AR''
                  \<lparr>sec = 63835596800, nsec = 123456789, location = ''UTC''\<rparr> (ID bob))
             (users demo_db) = [robert, alice]"
    by (simp add: demo_db_def updateRow_def e) (simp add: alice_def bob_def)
  have g: "uur_Name demo_update = ''Robert''" "uur_LastName demo_update = ''Builder''"
          "uur_Email demo_update = ''alice@example.com''" "uur_Country demo_update = ''AR''"
          "UTC demo_now = \<lparr>sec = 63835596800, nsec = 123456789, location = ''UTC''\<rparr>"
          "trace demo_db = []" "Email alice = ''alice@example.com''"
    by (simp_all add: demo_update_def UTC_def demo_now_def demo_db_def alice_def)
  show ?thesis
    using a b c d
      update_overwrites [of demo_libs demo_db "claims_of bob" "ID bob" demo_update demo_now bob]
    by (simp add: e f g claims_of_def)
qed

subsection \<open>GetAll\<close>

lemma GetAll_eq:
  "GetAll db p r =
     (case fault db (SelectPage ((p - 1) * r) r) of
        Some m \<Rightarrow> Inl (Wrap (Driver m) ''selecting users'')
      | None \<Rightarrow>
          if sint ((p - 1) * r) < 0
          then Inl (Wrap (Driver ''OFFSET must not be negative'') ''selecting users'')
          else if sint r < 0
          then Inl (Wrap (Driver ''LIMIT must not be negative'') ''selecting users'')
          else Inr (take (nat (sint r)) (drop (nat (sint ((p - 1) * r))) (sort_key ID (users db)))),
      sent db (SelectPage ((p - 1) * r) r))"
  by (simp add: GetAll_def selectPage_def Let_def split: option.splits)

lemma sorted_page: "sorted (map ID (take n (drop m (sort_key ID us))))"
proof -
  have "sorted (map ID (sort_key ID us))"
    by (rule sorted_sort_key)
  then have "sorted (take n (drop m (map ID (sort_key ID us))))"
    by (intro sorted_wrt_take sorted_wrt_drop)
  then show ?thesis
    by (simp add: take_map drop_map)
qed

text \<open>
  C8, as amended. \<open>GetAll\<close> sends one statement, the page at offset
  \<open>(pageNumber - 1) * rowsPerPage\<close> computed in Go's wrapping \<^verbatim>\<open>int\<close> arithmetic with
  limit \<open>rowsPerPage\<close>, and changes no row. Whatever it returns as users is that slice
  of the table ordered by id, so it is ordered by id ascending. For a page number of at
  least 1 and a row count of at least 0 whose product fits in an \<^verbatim>\<open>int\<close>, the offset
  is the integer \<open>(pageNumber - 1) * rowsPerPage\<close>, and a database that answers gives
  exactly the records after the first \<open>(pageNumber - 1) * rowsPerPage\<close>, at most
  \<open>rowsPerPage\<close> of them. For a negative row count the result is a wrapped driver
  error.
\<close>

theorem getall_page:
  "snd (GetAll db pageNumber rowsPerPage)
     = sent db (SelectPage ((pageNumber - 1) * rowsPerPage) rowsPerPage)
   \<and> (\<forall>us. fst (GetAll db pageNumber rowsPerPage) = Inr us \<longrightarrow>
          us = take (nat (sint rowsPerPage))
                 (drop (nat (sint ((pageNumber - 1) * rowsPerPage))) (sort_key ID (users db)))
          \<and> sorted (map ID us))
   \<and> (1 \<le> sint pageNumber \<and> 0 \<le> sint rowsPerPage
        \<and> (sint pageNumber - 1) * sint rowsPerPage < 2 ^ 63 \<longrightarrow>
        sint ((pageNumber - 1) * rowsPerPage) = (sint pageNumber - 1) * sint rowsPerPage
        \<and> (fault db (SelectPage ((pageNumber - 1) * rowsPerPage) rowsPerPage) = None \<longrightarrow>
             fst (GetAll db pageNumber rowsPerPage)
               = Inr (take (nat (sint rowsPerPage))
                       (drop (nat ((sint pageNumber - 1) * sint rowsPerPage))
                          (sort_key ID (users db))))))
   \<and> (sint rowsPerPage < 0 \<longrightarrow>
        (\<exists>m. fst (GetAll db pageNumber rowsPerPage)
               = Inl (Wrap (Driver m) ''selecting users'')))"
proof -
  have a: "snd (GetAll db pageNumber rowsPerPage)
     = sent db (SelectPage ((pageNumber - 1) * rowsPerPage) rowsPerPage)"
    by (simp add: GetAll_eq)
  have b: "us = take (nat (sint rowsPerPage))
                 (drop (nat (sint ((pageNumber - 1) * rowsPerPage))) (sort_key ID (users db)))
          \<and> sorted (map ID us)"
    if "fst (GetAll db pageNumber rowsPerPage) = Inr us" for us
  proof -
    from that have "us = take (nat (sint rowsPerPage))
                 (drop (nat (sint ((pageNumber - 1) * rowsPerPage))) (sort_key ID (users db)))"
      by (simp add: GetAll_eq split: option.splits if_splits)
    then show ?thesis
      by (simp add: sorted_page)
  qed
  have c: "sint ((pageNumber - 1) * rowsPerPage) = (sint pageNumber - 1) * sint rowsPerPage
        \<and> (fault db (SelectPage ((pageNumber - 1) * rowsPerPage) rowsPerPage) = None \<longrightarrow>
             fst (GetAll db pageNumber rowsPerPage)
               = Inr (take (nat (sint rowsPerPage))
                       (drop (nat ((sint pageNumber - 1) * sint rowsPerPage))
                          (sort_key ID (users db)))))"
    if h: "1 \<le> sint pageNumber" "0 \<le> sint rowsPerPage"
          "(sint pageNumber - 1) * sint rowsPerPage < 2 ^ 63"
  proof -
    have nonneg: "0 \<le> (sint pageNumber - 1) * sint rowsPerPage"
      using h(1,2) by simp
    have eq: "sint ((pageNumber - 1) * rowsPerPage) = (sint pageNumber - 1) * sint rowsPerPage"
      using h(1,3) nonneg by (intro sint_page_offset) simp_all
    show ?thesis
      using nonneg h(2) by (simp add: eq GetAll_eq)
  qed
  have d: "\<exists>m. fst (GetAll db pageNumber rowsPerPage)
               = Inl (Wrap (Driver m) ''selecting users'')"
    if "sint rowsPerPage < 0"
    using that by (simp add: GetAll_eq Wrap_def split: option.splits)
  from a b c d show ?thesis
    by blast
qed

lemma sorted_demo: "sort_key ID (users demo_db) = [alice, bob]"
  by (simp add: demo_db_def alice_def bob_def)

text \<open>
  C10, as amended. \<open>GetAll\<close> checks nothing: it always sends the page statement with
  the offset it computed, and its result is either the users the database returned or a
  driver error wrapped with \<open>selecting users\<close>, never one of the service's own errors.
  For a page number of at most 0 and a positive row count whose product
  \<open>(pageNumber - 1) * rowsPerPage\<close> is not below \<open>- 2 ^ 63\<close>, the offset sent is that
  negative integer, and the call ends in such a wrapped driver error.
\<close>

theorem getall_unvalidated:
  "snd (GetAll db pageNumber rowsPerPage)
     = sent db (SelectPage ((pageNumber - 1) * rowsPerPage) rowsPerPage)
   \<and> ((\<exists>us. fst (GetAll db pageNumber rowsPerPage) = Inr us)
        \<or> (\<exists>m. fst (GetAll db pageNumber rowsPerPage)
                  = Inl (Wrap (Driver m) ''selecting users'')))
   \<and> (sint pageNumber \<le> 0 \<and> 0 < sint rowsPerPage
        \<and> - (2 ^ 63) \<le> (sint pageNumber - 1) * sint rowsPerPage \<longrightarrow>
        sint ((pageNumber - 1) * rowsPerPage) = (sint pageNumber - 1) * sint rowsPerPage
        \<and> sint ((pageNumber - 1) * rowsPerPage) < 0
        \<and> (\<exists>m. fst (GetAll db pageNumber rowsPerPage)
                  = Inl (Wrap (Driver m) ''selecting users'')))"
proof -
  have a: "snd (GetAll db pageNumber rowsPerPage)
     = sent db (SelectPage ((pageNumber - 1) * rowsPerPage) rowsPerPage)"
    by (simp add: GetAll_eq)
  have b: "(\<exists>us. fst (GetAll db pageNumber rowsPerPage) = Inr us)
        \<or> (\<exists>m. fst (GetAll db pageNumber rowsPerPage)
                  = Inl (Wrap (Driver m) ''selecting users''))"
    by (simp add: GetAll_eq Wrap_def split: option.splits)
  have c: "sint ((pageNumber - 1) * rowsPerPage) = (sint pageNumber - 1) * sint rowsPerPage
        \<and> sint ((pageNumber - 1) * rowsPerPage) < 0
        \<and> (\<exists>m. fst (GetAll db pageNumber rowsPerPage)
                  = Inl (Wrap (Driver m) ''selecting users''))"
    if h: "sint pageNumber \<le> 0" "0 < sint rowsPerPage"
          "- (2 ^ 63) \<le> (sint pageNumber - 1) * sint rowsPerPage"
  proof -
    have neg: "(sint pageNumber - 1) * sint rowsPerPage < 0"
      using h(1,2) by (simp add: mult_neg_pos)
    have "(sint pageNumber - 1) * sint rowsPerPage \<le> (sint pageNumber - 1) * 1"
      using h(1,2) by (intro mult_left_mono_neg) simp_all
    with h(3) have low: "- (2 ^ 63) < sint pageNumber"
      by simp
    have eq: "sint ((pageNumber - 1) * rowsPerPage) = (sint pageNumber - 1) * sint rowsPerPage"
      using low h(3) neg by (intro sint_page_offset) simp_all
    show ?thesis
      using neg by (simp add: eq GetAll_eq Wrap_def split: option.splits)
  qed
  from a b c show ?thesis
    by blast
qed

lemma sent_demo: "sent demo_db s = demo_db\<lparr>trace := [s]\<rparr>"
  by (simp add: sent_def demo_db_def)

lemma fault_demo: "fault demo_db s = None"
  by (simp add: demo_db_def)

theorem getall_page_witness:
  "1 \<le> sint (1 :: 64 word) \<and> 1 \<le> sint (2 :: 64 word) \<and> 0 \<le> sint (10 :: 64 word)
   \<and> GetAll demo_db 1 10 = (Inr [alice, bob], demo_db\<lparr>trace := [SelectPage 0 10]\<rparr>)
   \<and> GetAll demo_db 2 10 = (Inr [], demo_db\<lparr>trace := [SelectPage 10 10]\<rparr>)
   \<and> GetAll demo_db 2 1 = (Inr [bob], demo_db\<lparr>trace := [SelectPage 1 1]\<rparr>)
   \<and> sorted (map ID [alice, bob])"
proof -
  have p1: "fst (GetAll demo_db 1 10)
              = Inr (take (nat (sint (10 :: 64 word)))
                      (drop (nat ((sint (1 :: 64 word) - 1) * sint (10 :: 64 word)))
                         (sort_key ID (users demo_db))))"
    by (rule getall_page [of demo_db 1 10, THEN conjunct2, THEN conjunct2,
          THEN conjunct1, THEN mp, THEN conjunct2, THEN mp])
      (simp_all add: fault_demo)
  have p1': "snd (GetAll demo_db 1 10) = sent demo_db (SelectPage ((1 - 1) * 10) 10)"
    by (rule getall_page [of demo_db 1 10, THEN conjunct1])
  have p2: "fst (GetAll demo_db 2 10)
              = Inr (take (nat (sint (10 :: 64 word)))
                      (drop (nat ((sint (2 :: 64 word) - 1) * sint (10 :: 64 word)))
                         (sort_key ID (users demo_db))))"
    by (rule getall_page [of demo_db 2 10, THEN conjunct2, THEN conjunct2,
          THEN conjunct1, THEN mp, THEN conjunct2, THEN mp])
      (simp_all add: fault_demo)
  have p2': "snd (GetAll demo_db 2 10) = sent demo_db (SelectPage ((2 - 1) * 10) 10)"
    by (rule getall_page [of demo_db 2 10, THEN conjunct1])
  have p3: "fst (GetAll demo_db 2 1)
              = Inr (take (nat (sint (1 :: 64 word)))
                      (drop (nat ((sint (2 :: 64 word) - 1) * sint (1 :: 64 word)))
                         (sort_key ID (users demo_db))))"
    by (rule getall_page [of demo_db 2 1, THEN conjunct2, THEN conjunct2,
          THEN conjunct1, THEN mp, THEN conjunct2, THEN mp])
      (simp_all add: fault_demo)
  have p3': "snd (GetAll demo_db 2 1) = sent demo_db (SelectPage ((2 - 1) * 1) 1)"
    by (rule getall_page [of demo_db 2 1, THEN conjunct1])
  have s: "sorted (map ID [alice, bob])"
    using getall_page [of demo_db 1 10, THEN conjunct2, THEN conjunct1, rule_format, OF p1]
    by (simp add: sorted_demo)
  show ?thesis
    using p1 p2 p3 p1' p2' p3' s by (simp add: prod_eq_iff sorted_demo sent_demo)
qed

text \<open>
  C8 as stated fails: with a row count of \<open>- 5\<close> page 1 is a wrapped driver error and no
  sequence of users, and for page \<open>2 ^ 62 + 1\<close> of 4 rows the product is \<open>2 ^ 64\<close> and
  the offset sent is 0.
\<close>

theorem getall_page_counterexample:
  "1 \<le> sint (1 :: 64 word)
   \<and> fst (GetAll demo_db 1 (- 5))
       = Inl (Wrap (Driver ''LIMIT must not be negative'') ''selecting users'')
   \<and> 1 \<le> sint (4611686018427387905 :: 64 word)
   \<and> (sint (4611686018427387905 :: 64 word) - 1) * sint (4 :: 64 word)
       = 18446744073709551616
   \<and> snd (GetAll demo_db 4611686018427387905 4) = demo_db\<lparr>trace := [SelectPage 0 4]\<rparr>"
proof -
  have a: "((1 :: 64 word) - 1) * (- 5) = 0"
          "((4611686018427387905 :: 64 word) - 1) * 4 = 0"
    by simp_all
  have b: "sint (- 5 :: 64 word) = - 5" "sint (4611686018427387905 :: 64 word) = 4611686018427387905"
    by simp_all
  have c: "fst (GetAll demo_db 1 (- 5))
       = Inl (Wrap (Driver ''LIMIT must not be negative'') ''selecting users'')"
    unfolding GetAll_eq a fault_demo by (simp add: b)
  have d: "snd (GetAll demo_db 4611686018427387905 4)
       = demo_db\<lparr>trace := [SelectPage 0 4]\<rparr>"
    unfolding GetAll_eq a sent_demo by simp
  show ?thesis
    using c d by (simp add: b)
qed

theorem getall_unvalidated_witness:
  "sint (0 :: 64 word) \<le> 0 \<and> 0 < sint (10 :: 64 word)
   \<and> - (2 ^ 63) \<le> (sint (0 :: 64 word) - 1) * sint (10 :: 64 word)
   \<and> sint ((0 - 1) * 10 :: 64 word) < 0
   \<and> snd (GetAll demo_db 0 10) = demo_db\<lparr>trace := [SelectPage (- 10) 10]\<rparr>
   \<and> (\<exists>m. fst (GetAll demo_db 0 10) = Inl (Wrap (Driver m) ''selecting users''))"
proof -
  have h: "sint (0 :: 64 word) \<le> 0 \<and> 0 < sint (10 :: 64 word)
           \<and> - (2 ^ 63) \<le> (sint (0 :: 64 word) - 1) * sint (10 :: 64 word)"
    by simp
  note g = getall_unvalidated [of demo_db 0 10]
  have a: "snd (GetAll demo_db 0 10) = sent demo_db (SelectPage ((0 - 1) * 10) 10)"
    by (rule g [THEN conjunct1])
  have b: "sint ((0 - 1) * 10 :: 64 word) < 0
           \<and> (\<exists>m. fst (GetAll demo_db 0 10) = Inl (Wrap (Driver m) ''selecting users''))"
    by (rule g [THEN conjunct2, THEN conjunct2, THEN mp, OF h, THEN conjunct2])
  have c: "(0 - 1) * 10 = (- 10 :: 64 word)"
    by simp
  show ?thesis
    using h a b unfolding c sent_demo by blast
qed

text \<open>
  C10 as stated fails at the least \<^verbatim>\<open>int\<close>: \<open>pageNumber - 1\<close> wraps around to the
  greatest \<^verbatim>\<open>int\<close>, the offset sent is positive, and the call returns an empty page.
\<close>

theorem getall_negative_offset_counterexample:
  "sint (- 9223372036854775808 :: 64 word) \<le> 0 \<and> 0 < sint (1 :: 64 word)
   \<and> GetAll demo_db (- 9223372036854775808) 1
       = (Inr [], demo_db\<lparr>trace := [SelectPage 9223372036854775807 1]\<rparr>)
   \<and> 0 \<le> sint (9223372036854775807 :: 64 word)"
proof -
  have a: "((- 9223372036854775808 :: 64 word) - 1) * 1 = 9223372036854775807"
    by simp
  have b: "sint (9223372036854775807 :: 64 word) = 9223372036854775807"
    by simp
  have c: "sint (- 9223372036854775808 :: 64 word) = - 9223372036854775808"
    by simp
  have e: "drop (nat 9223372036854775807) [alice, bob] = []"
    by simp
  have d: "GetAll demo_db (- 9223372036854775808) 1
       = (Inr [], demo_db\<lparr>trace := [SelectPage 9223372036854775807 1]\<rparr>)"
    unfolding GetAll_eq a b sorted_demo e fault_demo sent_demo by simp
  show ?thesis
    using d by (simp add: b c)
qed

subsection \<open>The claims Authenticate issues\<close>

text \<open>
  C3, as amended. When the driver does not fail on the lookup by email, the first row
  with that email has a hash that accepts the password, \<open>now\<close> is a time Go can make,
  and neither it nor the instant one hour later leaves the range of the clock's
  \<^verbatim>\<open>int64\<close> seconds,
  \<open>Authenticate\<close> returns claims with that row's id as subject, that row's roles, the
  Unix time of \<open>now\<close> as issue time, exactly 3600 seconds more as expiry, and the fixed
  issuer and audience.
\<close>

theorem authenticate_claims:
  assumes "fault db (SelectByEmail email) = None"
      and "find (\<lambda>u. Email u = email) (users db) = Some u"
      and "bcrypt_Compare L (PasswordHash u) password"
      and "wf_Time now"
      and "- (2 ^ 63) \<le> sint (sec now) - 62135596800"
      and "sint (sec now) + 3600 < 2 ^ 63"
  shows "fst (Authenticate L db now email password) =
           Inr \<lparr>Audience = ''clients'',
                ExpiresAt = Unix now + 3600,
                JwtId = [],
                IssuedAt = Unix now,
                Issuer = ''service template'',
                NotBefore = 0,
                Subject = ID u,
                ClaimRoles = Roles u\<rparr>
       \<and> sint (Unix now) = sint (sec now) - 62135596800
       \<and> sint (Unix now + 3600) = sint (Unix now) + 3600"
proof -
  have a: "fst (Authenticate L db now email password) =
           Inr \<lparr>Audience = ''clients'', ExpiresAt = Unix now + 3600, JwtId = [],
                IssuedAt = Unix now, Issuer = ''service template'', NotBefore = 0,
                Subject = ID u, ClaimRoles = Roles u\<rparr>"
    using assms(1-3)
    by (simp add: Authenticate_def getByEmail_eq Unix_Add_Hour [OF assms(4,6)])
  have b: "sint (Unix now) = sint (sec now) - 62135596800"
    by (rule sint_Unix [OF assms(5)])
  have "sint (Unix now) + 3600 < 2 ^ 63"
    using assms(6) by (simp add: b)
  then have c: "sint (Unix now + 3600) = sint (Unix now) + 3600"
    by (rule sint_plus_hour)
  from a b c show ?thesis
    by simp
qed

theorem authenticate_claims_witness:
  "fault demo_db (SelectByEmail ''bob@example.com'') = None
   \<and> find (\<lambda>u. Email u = ''bob@example.com'') (users demo_db) = Some bob
   \<and> bcrypt_Compare demo_libs (PasswordHash bob) ''canwefixit''
   \<and> wf_Time demo_now
   \<and> - (2 ^ 63) \<le> sint (sec demo_now) - 62135596800
   \<and> sint (sec demo_now) + 3600 < 2 ^ 63
   \<and> fst (Authenticate demo_libs demo_db demo_now ''bob@example.com'' ''canwefixit'') =
       Inr \<lparr>Audience = ''clients'',
            ExpiresAt = 1700003600,
            JwtId = [],
            IssuedAt = 1700000000,
            Issuer = ''service template'',
            NotBefore = 0,
            Subject = ''7c9e6679-7425-40de-944b-e07fc1f90ae7'',
            ClaimRoles = [''USER'']\<rparr>"
proof -
  have a: "fault demo_db (SelectByEmail ''bob@example.com'') = None"
    by (simp add: demo_db_def)
  have b: "find (\<lambda>u. Email u = ''bob@example.com'') (users demo_db) = Some bob"
    by (simp add: demo_db_def bob_def)
  have c: "bcrypt_Compare demo_libs (PasswordHash bob) ''canwefixit''"
    by (simp add: demo_libs_def toy_Compare_def bob_def)
  have d: "wf_Time demo_now"
    by (simp add: wf_Time_def demo_now_def)
  have e: "- (2 ^ 63) \<le> sint (sec demo_now) - 62135596800"
    by (simp add: demo_now_def)
  have f: "sint (sec demo_now) + 3600 < 2 ^ 63"
    by (simp add: demo_now_def)
  have g: "Unix demo_now = 1700000000"
    by (simp add: Unix_def internalToUnix_def demo_now_def)
  have h: "ID bob = ''7c9e6679-7425-40de-944b-e07fc1f90ae7''" "Roles bob = [''USER'']"
    by (simp_all add: bob_def)
  have "fst (Authenticate demo_libs demo_db demo_now ''bob@example.com'' ''canwefixit'') =
       Inr \<lparr>Audience = ''clients'', ExpiresAt = Unix demo_now + 3600, JwtId = [],
            IssuedAt = Unix demo_now, Issuer = ''service template'', NotBefore = 0,
            Subject = ID bob, ClaimRoles = Roles bob\<rparr>"
    by (rule authenticate_claims [OF a b c d e f, THEN conjunct1])
  then show ?thesis
    using a b c d e f by (simp add: g h)
qed

text \<open>
  C3 as stated fails twice. After Bob's email was updated to Alice's, Alice exists and her
  password verifies against her hash, but the lookup by her email finds Bob's row first
  and \<open>Authenticate\<close> refuses her. And at the greatest Unix time the expiry wraps around
  and lies before the issue time.
\<close>

theorem authenticate_claims_counterexample:
  "alice \<in> set [robert, alice]
   \<and> bcrypt_Compare demo_libs (PasswordHash alice) ''wonderland''
   \<and> fst (Authenticate demo_libs (demo_db\<lparr>users := [robert, alice]\<rparr>) demo_now
            (Email alice) ''wonderland'') = Inl ErrAuthenticationFailure
   \<and> bcrypt_Compare demo_libs (PasswordHash bob) ''canwefixit''
   \<and> fst (Authenticate demo_libs demo_db far_now (Email bob) ''canwefixit'') =
       Inr \<lparr>Audience = ''clients'',
            ExpiresAt = - 9223372036854772209,
            JwtId = [],
            IssuedAt = 9223372036854775807,
            Issuer = ''service template'',
            NotBefore = 0,
            Subject = ID bob,
            ClaimRoles = Roles bob\<rparr>
   \<and> sint (- 9223372036854772209 :: 64 word) < sint (9223372036854775807 :: 64 word)"
proof -
  have a: "bcrypt_Compare demo_libs (PasswordHash alice) ''wonderland''"
          "bcrypt_Compare demo_libs (PasswordHash bob) ''canwefixit''"
          "\<not> bcrypt_Compare demo_libs (PasswordHash robert) ''wonderland''"
    by (simp_all add: demo_libs_def toy_Compare_def alice_def bob_def robert_def)
  have b: "find (\<lambda>u. Email u = Email alice) [robert, alice] = Some robert"
    by (simp add: robert_def alice_def)
  have c: "fst (Authenticate demo_libs (demo_db\<lparr>users := [robert, alice]\<rparr>) demo_now
            (Email alice) ''wonderland'') = Inl ErrAuthenticationFailure"
    using a(3) b by (simp add: Authenticate_def getByEmail_eq demo_db_def)
  have d: "wf_Time far_now"
    by (simp add: wf_Time_def far_now_def)
  have e: "Unix far_now = 9223372036854775807"
    by (simp add: Unix_def internalToUnix_def far_now_def)
  have f: "addSec demo_libs (sec far_now) 3600 = - 9223371974719175409"
    by (simp add: addSec_def demo_libs_def far_now_def)
  have g: "Unix (Add demo_libs far_now Hour) = - 9223372036854772209"
    by (simp add: Add_Hour [OF d] f Unix_def internalToUnix_def)
  have h: "find (\<lambda>u. Email u = Email bob) (users demo_db) = Some bob"
    by (simp add: demo_db_def)
  have i: "fst (Authenticate demo_libs demo_db far_now (Email bob) ''canwefixit'') =
       Inr \<lparr>Audience = ''clients'', ExpiresAt = - 9223372036854772209, JwtId = [],
            IssuedAt = 9223372036854775807, Issuer = ''service template'', NotBefore = 0,
            Subject = ID bob, ClaimRoles = Roles bob\<rparr>"
    using a(2) h by (simp add: Authenticate_def getByEmail_eq fault_demo e g)
  have j: "sint (- 9223372036854772209 :: 64 word) < sint (9223372036854775807 :: 64 word)"
    by simp
  show ?thesis
    using a(1,2) c i j by simp
qed

end
